theory Spec2Isabelle
  imports Main
begin

section \<open>Python values, exceptions and HTTP responses\<close>

text \<open>
  The module \<^verbatim>\<open>robottelo/entities.py\<close> is Python 2. Values that cross its methods
  (arguments such as \<^verbatim>\<open>synchronous\<close> and \<^verbatim>\<open>which\<close>, decoded JSON, request payloads) are
  modelled by one datatype of Python values. A dict is an association list read with
  \<open>map_of\<close>.
\<close>

datatype pyval =
    PNone
  | PBool bool
  | PInt int
  | PStr string
  | PList "pyval list"
  | PTuple "pyval list"
  | PDict "(string \<times> pyval) list"

text \<open>Every \<^verbatim>\<open>raise\<close> of the module and of the calls it makes is a value of this type.\<close>

datatype error =
    HTTPError int
  | APIResponseError nat
  | TaskTimeout
  | KeyError
  | IndexError
  | TypeError
  | ValueError
  | AttributeError
  | IOError
  | ConnectionError
  | NoSuchPathError

type_synonym 'a result = "error + 'a"

definition bind_r :: "'a result \<Rightarrow> ('a \<Rightarrow> 'b result) \<Rightarrow> 'b result" where
  "bind_r r f = (case r of Inl e \<Rightarrow> Inl e | Inr x \<Rightarrow> f x)"

text \<open>
  A response of the HTTP client. \<open>body\<close> is the decoded JSON, \<open>None\<close> when the body is
  not JSON (then \<^verbatim>\<open>response.json()\<close> raises \<^verbatim>\<open>ValueError\<close>). \<open>shares_object\<close> records
  whether the integer object held in \<^verbatim>\<open>status_code\<close> is the very object of an equal
  integer literal of the module: Python leaves that to the interpreter, and the module
  compares status codes with \<^verbatim>\<open>is\<close>.
\<close>

record response =
  status_code :: int
  shares_object :: bool
  body :: "pyval option"

text \<open>
  \<^verbatim>\<open>response.status_code is k\<close> for an integer literal or constant \<open>k\<close>. CPython keeps a
  single object for every integer from -5 to 256, so there identity is equality of the
  values; outside that range two equal integers are the same object only when the
  interpreter shares them.
\<close>

definition status_is :: "response \<Rightarrow> int \<Rightarrow> bool" where
  "status_is r k \<longleftrightarrow> status_code r = k \<and> ((-5 \<le> k \<and> k \<le> 256) \<or> shares_object r)"

text \<open>\<^verbatim>\<open>httplib.ACCEPTED\<close>\<close>

definition ACCEPTED :: int where
  "ACCEPTED = 202"

text \<open>
  \<^verbatim>\<open>response.raise_for_status()\<close> of the HTTP client library: \<^verbatim>\<open>HTTPError\<close> for a 4xx or
  5xx status, nothing otherwise.
\<close>

definition raise_for_status :: "response \<Rightarrow> unit result" where
  "raise_for_status r =
     (if 400 \<le> status_code r \<and> status_code r < 600 then Inl (HTTPError (status_code r))
      else Inr ())"

text \<open>\<^verbatim>\<open>response.json()\<close>\<close>

definition response_json :: "response \<Rightarrow> pyval result" where
  "response_json r = (case body r of None \<Rightarrow> Inl ValueError | Some j \<Rightarrow> Inr j)"

text \<open>\<^verbatim>\<open>x[key]\<close> for a string key: a dict looks the key up, nothing else takes a string.\<close>

fun py_getitem :: "pyval \<Rightarrow> string \<Rightarrow> pyval result" where
  "py_getitem (PDict kvs) k = (case map_of kvs k of None \<Rightarrow> Inl KeyError | Some v \<Rightarrow> Inr v)"
| "py_getitem _ k = Inl TypeError"

text \<open>
  \<^verbatim>\<open>x[0]\<close>: the first element of a list, tuple or string; a dict decoded from JSON has
  string keys only, so the key 0 is missing.
\<close>

fun py_first :: "pyval \<Rightarrow> pyval result" where
  "py_first (PList xs) = (case xs of [] \<Rightarrow> Inl IndexError | x # _ \<Rightarrow> Inr x)"
| "py_first (PTuple xs) = (case xs of [] \<Rightarrow> Inl IndexError | x # _ \<Rightarrow> Inr x)"
| "py_first (PStr s) = (case s of [] \<Rightarrow> Inl IndexError | c # _ \<Rightarrow> Inr (PStr [c]))"
| "py_first (PDict kvs) = Inl KeyError"
| "py_first _ = Inl TypeError"

text \<open>\<^verbatim>\<open>len(x)\<close>\<close>

fun py_len :: "pyval \<Rightarrow> nat result" where
  "py_len (PList xs) = Inr (length xs)"
| "py_len (PTuple xs) = Inr (length xs)"
| "py_len (PStr s) = Inr (length s)"
| "py_len (PDict kvs) = Inr (length (remdups (map fst kvs)))"
| "py_len _ = Inl TypeError"


section \<open>\<^verbatim>\<open>ConfigTemplate._factory_data\<close>\<close>

text \<open>\<^verbatim>\<open>TemplateKind.Meta.NUM_CREATED_BY_DEFAULT\<close>\<close>

definition NUM_CREATED_BY_DEFAULT :: int where
  "NUM_CREATED_BY_DEFAULT = 8"

text \<open>Python 2's \<^verbatim>\<open>range(a, b)\<close>: the list of the integers from \<open>a\<close> up to \<open>b - 1\<close>.\<close>

definition py_range :: "int \<Rightarrow> int \<Rightarrow> int list" where
  "py_range a b = [a..b - 1]"

text \<open>
  \<^verbatim>\<open>random.choice(seq)\<close>: the element at a random index below \<^verbatim>\<open>len(seq)\<close>,
  \<^verbatim>\<open>IndexError\<close> on an empty sequence. The generator's draw is the argument \<open>rnd\<close>.
\<close>

definition random_choice :: "nat \<Rightarrow> 'a list \<Rightarrow> 'a result" where
  "random_choice rnd xs = (if xs = [] then Inl IndexError else Inr (xs ! (rnd mod length xs)))"

text \<open>\<^verbatim>\<open>d.setdefault(k, v)\<close>: stores \<open>v\<close> only when \<open>k\<close> is not a key of \<open>d\<close>.\<close>

definition setdefault :: "(string \<rightharpoonup> pyval) \<Rightarrow> string \<Rightarrow> pyval \<Rightarrow> (string \<rightharpoonup> pyval)" where
  "setdefault d k v = (case d k of None \<Rightarrow> d(k \<mapsto> v) | Some _ \<Rightarrow> d)"

text \<open>
  \<open>vals\<close> is what \<^verbatim>\<open>super(ConfigTemplate, self)._factory_data()\<close> returned (the factory
  mixin is not part of this module). The argument of \<^verbatim>\<open>setdefault\<close> is evaluated before
  the call, so \<^verbatim>\<open>random.choice\<close> runs whenever the template is not a snippet.
\<close>

definition ConfigTemplate_factory_data :: "(string \<rightharpoonup> pyval) \<Rightarrow> nat \<Rightarrow> (string \<rightharpoonup> pyval) result" where
  "ConfigTemplate_factory_data vals rnd =
     (if vals ''snippet'' = Some (PBool False) then
        bind_r (random_choice rnd (py_range 1 (NUM_CREATED_BY_DEFAULT + 1)))
          (\<lambda>k. Inr (setdefault vals ''template_kind_id'' (PInt k)))
      else Inr vals)"


section \<open>\<^verbatim>\<open>System.path\<close>\<close>

text \<open>
  \<open>super_path\<close> is the inherited \<^verbatim>\<open>orm.Entity.path\<close> bound to the entity (the ORM is not
  part of this module): it maps the argument \<^verbatim>\<open>which\<close> to a path or raises.
  \<^verbatim>\<open>'{0}/{1}'.format(a, b)\<close> on two strings is \<open>a @ ''/'' @ b\<close>.
\<close>

definition System_path :: "(pyval \<Rightarrow> string result) \<Rightarrow> string option \<Rightarrow> pyval \<Rightarrow> string result" where
  "System_path super_path uuid which =
     (case uuid of
        Some u \<Rightarrow>
          if which = PNone \<or> which = PStr ''self'' then
            bind_r (super_path (PStr ''base'')) (\<lambda>base. Inr (base @ ''/'' @ u))
          else super_path which
      | None \<Rightarrow> super_path which)"


section \<open>The world outside the module\<close>

text \<open>
  The module talks to a server through \<^verbatim>\<open>robottelo.api.client\<close>, polls tasks through
  \<^verbatim>\<open>orm._poll_task\<close>, asks Bugzilla through \<^verbatim>\<open>bz_bug_is_open\<close>, opens files, reads the
  clock and escapes search strings through \<^verbatim>\<open>escape_search\<close>. None of these is part of
  the module: what they answer is a field of the world, and what the module does to the
  world is appended to \<open>trace\<close>, oldest action first.
\<close>

datatype http_method = GET | POST | PUT

datatype action =
    Request http_method string pyval "string option"
  | Poll pyval int int
  | Sleep nat

text \<open>
  \<open>Request m path data file\<close>: one call of \<^verbatim>\<open>client.get\<close>, \<^verbatim>\<open>client.post\<close> or
  \<^verbatim>\<open>client.put\<close> with its \<^verbatim>\<open>data\<close> and the file sent as \<^verbatim>\<open>files\<close>, if any (the arguments
  \<^verbatim>\<open>auth\<close> and \<^verbatim>\<open>verify\<close> are the same in every call and are left out).
  \<open>Poll task_id poll_rate timeout\<close>: one call of \<^verbatim>\<open>orm._poll_task\<close>.
  \<open>Sleep n\<close>: \<^verbatim>\<open>sleep(n)\<close>.
\<close>

record world =
  answers :: "nat \<Rightarrow> response result"
  poll_task :: "pyval \<Rightarrow> int \<Rightarrow> int \<Rightarrow> pyval result"
  bz_bug_is_open :: "nat \<Rightarrow> bool"
  readable :: "string \<Rightarrow> bool"
  now :: string
  escape_search :: "string \<Rightarrow> string"
  trace :: "action list"

text \<open>
  \<open>answers w n\<close> is what the client returns for the request made after \<open>n\<close> earlier ones
  (a response, or an exception of the client such as a refused connection).
\<close>

type_synonym 'a act = "world \<Rightarrow> 'a result \<times> world"

definition bind_w :: "'a act \<Rightarrow> ('a \<Rightarrow> 'b act) \<Rightarrow> 'b act" where
  "bind_w m f w = (case m w of (Inl e, w') \<Rightarrow> (Inl e, w') | (Inr x, w') \<Rightarrow> f x w')"

definition pure_w :: "'a result \<Rightarrow> 'a act" where
  "pure_w r w = (r, w)"

fun is_request :: "action \<Rightarrow> bool" where
  "is_request (Request m p d f) = True"
| "is_request _ = False"

definition requests_made :: "action list \<Rightarrow> nat" where
  "requests_made t = length (filter is_request t)"

definition client_call :: "http_method \<Rightarrow> string \<Rightarrow> pyval \<Rightarrow> string option \<Rightarrow> response act" where
  "client_call m path data file w =
     (answers w (requests_made (trace w)), w\<lparr>trace := trace w @ [Request m path data file]\<rparr>)"


text \<open>\<^verbatim>\<open>open(path, 'rb')\<close>\<close>

definition open_rb :: "string \<Rightarrow> string act" where
  "open_rb path w = (if readable w path then Inr path else Inl IOError, w)"


section \<open>\<^verbatim>\<open>ForemanTask.poll\<close> and the tail of the asynchronous helpers\<close>

text \<open>
  \<^verbatim>\<open>ForemanTask(id=task_id).poll(poll_rate, timeout)\<close> returns
  \<^verbatim>\<open>orm._poll_task(self.id, poll_rate, timeout, auth)\<close>; the defaults are 5 and 120.
\<close>

definition ForemanTask_poll :: "pyval \<Rightarrow> int \<Rightarrow> int \<Rightarrow> pyval act" where
  "ForemanTask_poll task_id poll_rate timeout w =
     (poll_task w task_id poll_rate timeout,
      w\<lparr>trace := trace w @ [Poll task_id poll_rate timeout]\<rparr>)"

text \<open>
  The eight asynchronous helpers end with the same lines:
  \<^verbatim>\<open>
  response.raise_for_status()
  if response.status_code is httplib.ACCEPTED:
      task_id = response.json()['id']
      if synchronous is True:
          ForemanTask(id=task_id).poll()
      return task_id
  return None
  \<close>
  \<^verbatim>\<open>synchronous is True\<close> holds for the object \<^verbatim>\<open>True\<close> alone.
\<close>

definition task_id_or_none :: "pyval \<Rightarrow> response \<Rightarrow> pyval act" where
  "task_id_or_none synchronous response =
     bind_w (pure_w (raise_for_status response)) (\<lambda>_.
       if status_is response ACCEPTED then
         bind_w (pure_w (bind_r (response_json response) (\<lambda>j. py_getitem j ''id''))) (\<lambda>task_id.
           if synchronous = PBool True then
             bind_w (ForemanTask_poll task_id 5 120) (\<lambda>_. pure_w (Inr task_id))
           else pure_w (Inr task_id))
       else pure_w (Inr PNone))"

text \<open>
  The uniqueness searches end with the same lines:
  \<^verbatim>\<open>
  if len(results) != 1:
      raise APIResponseError("The length of the results is:", len(results))
  return results[0]['id']
  \<close>
\<close>

definition single_id :: "pyval \<Rightarrow> pyval result" where
  "single_id results =
     bind_r (py_len results) (\<lambda>n.
       if n \<noteq> 1 then Inl (APIResponseError n)
       else bind_r (py_first results) (\<lambda>r. py_getitem r ''id''))"

text \<open>\<^verbatim>\<open>response.json()['results']\<close>\<close>

definition json_results :: "response \<Rightarrow> pyval result" where
  "json_results response = bind_r (response_json response) (\<lambda>j. py_getitem j ''results'')"


section \<open>The \<^verbatim>\<open>path\<close> methods\<close>

text \<open>
  Each \<^verbatim>\<open>path\<close> method extends the inherited \<^verbatim>\<open>orm.Entity.path\<close>, here \<open>super_path\<close>.
  \<^verbatim>\<open>which in (...)\<close> compares with \<^verbatim>\<open>==\<close>, so only a string can be in a tuple of
  strings.
\<close>

definition ActivationKey_path :: "(pyval \<Rightarrow> string result) \<Rightarrow> pyval \<Rightarrow> string result" where
  "ActivationKey_path super_path which =
     (case which of
        PStr s \<Rightarrow>
          if s \<in> set [''releases'', ''subscriptions''] then
            bind_r (super_path (PStr ''self'')) (\<lambda>p. Inr (p @ ''/'' @ s))
          else super_path which
      | _ \<Rightarrow> super_path which)"

definition ContentViewVersion_path :: "(pyval \<Rightarrow> string result) \<Rightarrow> pyval \<Rightarrow> string result" where
  "ContentViewVersion_path super_path which =
     (if which = PStr ''promote'' then
        bind_r (super_path (PStr ''self'')) (\<lambda>p. Inr (p @ ''/promote''))
      else super_path which)"

definition ContentView_path :: "(pyval \<Rightarrow> string result) \<Rightarrow> pyval \<Rightarrow> string result" where
  "ContentView_path super_path which =
     (case which of
        PStr s \<Rightarrow>
          if s \<in> set [''content_view_puppet_modules'', ''content_view_versions'', ''publish'',
                       ''available_puppet_module_names''] then
            bind_r (super_path (PStr ''self'')) (\<lambda>p. Inr (p @ ''/'' @ s))
          else super_path which
      | _ \<Rightarrow> super_path which)"

definition Organization_path :: "(pyval \<Rightarrow> string result) \<Rightarrow> pyval \<Rightarrow> string result" where
  "Organization_path super_path which =
     (case which of
        PStr s \<Rightarrow>
          if s \<in> set [''products'', ''subscriptions/delete_manifest'',
                       ''subscriptions/refresh_manifest'', ''subscriptions/upload'',
                       ''sync_plans'', ''subscriptions''] then
            bind_r (super_path (PStr ''self'')) (\<lambda>p. Inr (p @ ''/'' @ s))
          else super_path which
      | _ \<Rightarrow> super_path which)"

text \<open>
  \<^verbatim>\<open>which is not None and which.startswith("repository_sets")\<close>: a value that is neither
  \<^verbatim>\<open>None\<close> nor a string has no \<^verbatim>\<open>startswith\<close>.
\<close>

definition Product_path :: "(pyval \<Rightarrow> string result) \<Rightarrow> pyval \<Rightarrow> string result" where
  "Product_path super_path which =
     (case which of
        PNone \<Rightarrow> super_path which
      | PStr s \<Rightarrow>
          if take (length ''repository_sets'') s = ''repository_sets'' then
            bind_r (super_path (PStr ''self'')) (\<lambda>p. Inr (p @ ''/'' @ s))
          else super_path which
      | _ \<Rightarrow> Inl AttributeError)"

definition Repository_path :: "(pyval \<Rightarrow> string result) \<Rightarrow> pyval \<Rightarrow> string result" where
  "Repository_path super_path which =
     (case which of
        PStr s \<Rightarrow>
          if s \<in> set [''sync'', ''upload_content''] then
            bind_r (super_path (PStr ''self'')) (\<lambda>p. Inr (p @ ''/'' @ s))
          else super_path which
      | _ \<Rightarrow> super_path which)"


section \<open>The helper methods that call the HTTP client\<close>

text \<open>
  In every helper the path is computed first, then the request is made, then the
  response is examined. \<open>super_path\<close> is the inherited \<^verbatim>\<open>path\<close> of the receiver.
\<close>

definition ActivationKey_add_subsciptions ::
    "(pyval \<Rightarrow> string result) \<Rightarrow> pyval \<Rightarrow> pyval \<Rightarrow> pyval act" where
  "ActivationKey_add_subsciptions super_path subscription_id quantity =
     bind_w (pure_w (ActivationKey_path super_path (PStr ''subscriptions''))) (\<lambda>p.
     bind_w (client_call POST p (PDict [(''id'', subscription_id), (''quantity'', quantity)]) None)
       (\<lambda>response.
     pure_w (bind_r (raise_for_status response) (\<lambda>_. response_json response))))"

definition ContentViewVersion_promote ::
    "(pyval \<Rightarrow> string result) \<Rightarrow> pyval \<Rightarrow> pyval \<Rightarrow> pyval act" where
  "ContentViewVersion_promote super_path environment_id synchronous =
     bind_w (pure_w (ContentViewVersion_path super_path (PStr ''promote''))) (\<lambda>p.
     bind_w (client_call POST p (PDict [(''environment_id'', environment_id)]) None)
       (task_id_or_none synchronous))"

definition ContentView_publish ::
    "(pyval \<Rightarrow> string result) \<Rightarrow> pyval \<Rightarrow> pyval \<Rightarrow> pyval act" where
  "ContentView_publish super_path self_id synchronous =
     bind_w (pure_w (ContentView_path super_path (PStr ''publish''))) (\<lambda>p.
     bind_w (client_call POST p (PDict [(''id'', self_id)]) None)
       (task_id_or_none synchronous))"

definition Organization_subscriptions :: "(pyval \<Rightarrow> string result) \<Rightarrow> pyval act" where
  "Organization_subscriptions super_path =
     bind_w (pure_w (Organization_path super_path (PStr ''subscriptions''))) (\<lambda>p.
     bind_w (client_call GET p PNone None) (\<lambda>response.
     pure_w (bind_r (raise_for_status response) (\<lambda>_. json_results response))))"

text \<open>The manifest file is opened before the request is made.\<close>

definition Organization_upload_manifest ::
    "(pyval \<Rightarrow> string result) \<Rightarrow> string \<Rightarrow> pyval \<Rightarrow> pyval \<Rightarrow> pyval act" where
  "Organization_upload_manifest super_path path repository_url synchronous =
     (let data = (if repository_url \<noteq> PNone then PDict [(''repository_url'', repository_url)]
                  else PNone)
      in bind_w (open_rb path) (\<lambda>manifest.
         bind_w (pure_w (Organization_path super_path (PStr ''subscriptions/upload''))) (\<lambda>p.
         bind_w (client_call POST p data (Some manifest))
           (task_id_or_none synchronous))))"

definition Organization_delete_manifest ::
    "(pyval \<Rightarrow> string result) \<Rightarrow> pyval \<Rightarrow> pyval act" where
  "Organization_delete_manifest super_path synchronous =
     bind_w (pure_w (Organization_path super_path (PStr ''subscriptions/delete_manifest''))) (\<lambda>p.
     bind_w (client_call POST p PNone None)
       (task_id_or_none synchronous))"

definition Organization_refresh_manifest ::
    "(pyval \<Rightarrow> string result) \<Rightarrow> pyval \<Rightarrow> pyval act" where
  "Organization_refresh_manifest super_path synchronous =
     bind_w (pure_w (Organization_path super_path (PStr ''subscriptions/refresh_manifest''))) (\<lambda>p.
     bind_w (client_call PUT p PNone None)
       (task_id_or_none synchronous))"

text \<open>\<^verbatim>\<open>datetime.now().strftime(...)\<close> is the world's \<open>now\<close>.\<close>

definition Organization_sync_plan ::
    "(pyval \<Rightarrow> string result) \<Rightarrow> pyval \<Rightarrow> pyval \<Rightarrow> pyval act" where
  "Organization_sync_plan super_path name interval w =
     (let sync_date = now w
      in bind_w (pure_w (Organization_path super_path (PStr ''sync_plans''))) (\<lambda>p.
         bind_w (client_call POST p
            (PDict [(''name'', name), (''interval'', interval), (''sync_date'', PStr sync_date)])
            None) (\<lambda>response.
         pure_w (bind_r (raise_for_status response) (\<lambda>_. response_json response)))) w)"

definition Organization_list_rhproducts ::
    "(pyval \<Rightarrow> string result) \<Rightarrow> pyval \<Rightarrow> pyval act" where
  "Organization_list_rhproducts super_path per_page =
     bind_w (pure_w (Organization_path super_path (PStr ''products''))) (\<lambda>p.
     bind_w (client_call GET p (PDict [(''per_page'', per_page)]) None) (\<lambda>response.
     pure_w (bind_r (raise_for_status response) (\<lambda>_. json_results response))))"

text \<open>\<^verbatim>\<open>'name={}'.format(escape_search(name))\<close> is \<open>''name='' @ escape_search w name\<close>.\<close>

definition Organization_fetch_rhproduct_id ::
    "(pyval \<Rightarrow> string result) \<Rightarrow> string \<Rightarrow> pyval act" where
  "Organization_fetch_rhproduct_id super_path name w =
     bind_w (pure_w (Organization_path super_path (PStr ''products''))) (\<lambda>p.
     bind_w (client_call GET p (PDict [(''search'', PStr (''name='' @ escape_search w name))]) None)
       (\<lambda>response.
     pure_w (bind_r (raise_for_status response) (\<lambda>_.
             bind_r (json_results response) single_id)))) w"

text \<open>
  \<^verbatim>\<open>Permission.search\<close> reads the fields \<^verbatim>\<open>name\<close> and \<^verbatim>\<open>resource_type\<close> of the receiver and
  uses the inherited \<^verbatim>\<open>path\<close>. The later key stands later in the dict.
\<close>

definition Permission_search ::
    "(pyval \<Rightarrow> string result) \<Rightarrow> pyval \<Rightarrow> pyval \<Rightarrow> pyval \<Rightarrow> pyval act" where
  "Permission_search super_path self_name self_resource_type per_page =
     (let search_terms = [(''per_page'', per_page)]
            @ (if self_name \<noteq> PNone then [(''name'', self_name)] else [])
            @ (if self_resource_type \<noteq> PNone then [(''resource_type'', self_resource_type)] else [])
      in bind_w (pure_w (super_path (PStr ''base''))) (\<lambda>p.
         bind_w (client_call GET p (PDict search_terms) None) (\<lambda>response.
         pure_w (bind_r (raise_for_status response) (\<lambda>_. json_results response)))))"

definition Product_list_repositorysets ::
    "(pyval \<Rightarrow> string result) \<Rightarrow> pyval \<Rightarrow> pyval act" where
  "Product_list_repositorysets super_path per_page =
     bind_w (pure_w (Product_path super_path (PStr ''repository_sets''))) (\<lambda>p.
     bind_w (client_call GET p (PDict [(''per_page'', per_page)]) None) (\<lambda>response.
     pure_w (bind_r (raise_for_status response) (\<lambda>_. json_results response))))"

definition Product_fetch_rhproduct_id ::
    "(pyval \<Rightarrow> string result) \<Rightarrow> string \<Rightarrow> pyval \<Rightarrow> pyval act" where
  "Product_fetch_rhproduct_id super_path name org_id w =
     bind_w (pure_w (Product_path super_path (PStr ''base''))) (\<lambda>p.
     bind_w (client_call GET p
        (PDict [(''search'', PStr (''name='' @ escape_search w name)), (''organization_id'', org_id)])
        None) (\<lambda>response.
     pure_w (bind_r (raise_for_status response) (\<lambda>_.
             bind_r (json_results response) single_id)))) w"

definition Product_fetch_reposet_id ::
    "(pyval \<Rightarrow> string result) \<Rightarrow> pyval \<Rightarrow> pyval act" where
  "Product_fetch_reposet_id super_path name =
     bind_w (pure_w (Product_path super_path (PStr ''repository_sets''))) (\<lambda>p.
     bind_w (client_call GET p (PDict [(''name'', name)]) None) (\<lambda>response.
     pure_w (bind_r (raise_for_status response) (\<lambda>_.
             bind_r (json_results response) single_id))))"

text \<open>
  \<^verbatim>\<open>'repository_sets/{0}/enable'.format(reposet_id)\<close> for the string \<^verbatim>\<open>reposet_id\<close>.
\<close>

definition Product_enable_rhrepo ::
    "(pyval \<Rightarrow> string result) \<Rightarrow> pyval \<Rightarrow> pyval \<Rightarrow> string \<Rightarrow> pyval \<Rightarrow> pyval act" where
  "Product_enable_rhrepo super_path base_arch release_ver reposet_id synchronous =
     bind_w (pure_w (Product_path super_path
                (PStr (''repository_sets/'' @ reposet_id @ ''/enable'')))) (\<lambda>p.
     bind_w (client_call PUT p (PDict [(''basearch'', base_arch), (''releasever'', release_ver)]) None)
       (task_id_or_none synchronous))"

definition Product_disable_rhrepo ::
    "(pyval \<Rightarrow> string result) \<Rightarrow> pyval \<Rightarrow> pyval \<Rightarrow> string \<Rightarrow> pyval \<Rightarrow> pyval act" where
  "Product_disable_rhrepo super_path base_arch release_ver reposet_id synchronous =
     bind_w (pure_w (Product_path super_path
                (PStr (''repository_sets/'' @ reposet_id @ ''/disable'')))) (\<lambda>p.
     bind_w (client_call PUT p (PDict [(''basearch'', base_arch), (''releasever'', release_ver)]) None)
       (task_id_or_none synchronous))"

definition Repository_sync :: "(pyval \<Rightarrow> string result) \<Rightarrow> pyval \<Rightarrow> pyval act" where
  "Repository_sync super_path synchronous =
     bind_w (pure_w (Repository_path super_path (PStr ''sync''))) (\<lambda>p.
     bind_w (client_call POST p PNone None)
       (task_id_or_none synchronous))"

definition Repository_fetch_repoid ::
    "(pyval \<Rightarrow> string result) \<Rightarrow> pyval \<Rightarrow> string \<Rightarrow> pyval act" where
  "Repository_fetch_repoid super_path org_id name w =
     bind_w (pure_w (Repository_path super_path PNone)) (\<lambda>p.
     bind_w (client_call GET p
        (PDict [(''organization_id'', org_id), (''search'', PStr (''name='' @ escape_search w name))])
        None) (\<lambda>response.
     pure_w (bind_r (raise_for_status response) (\<lambda>_.
             bind_r (json_results response) single_id)))) w"


section \<open>\<^verbatim>\<open>ActivationKey.read_raw\<close>\<close>




section \<open>\<^verbatim>\<open>LifecycleEnvironment.build\<close>\<close>

record lifecycle_env =
  organization :: pyval
  prior :: pyval

text \<open>
  The search for the "Library" environment of the organization, and the test on its
  results. No \<^verbatim>\<open>raise_for_status\<close> is called here. \<^verbatim>\<open>LifecycleEnvironment\<close> has no
  \<^verbatim>\<open>path\<close> of its own.
\<close>

definition LifecycleEnvironment_library_lookup ::
    "(pyval \<Rightarrow> string result) \<Rightarrow> pyval \<Rightarrow> pyval act" where
  "LifecycleEnvironment_library_lookup super_path org =
     bind_w (pure_w (super_path PNone)) (\<lambda>p.
     bind_w (client_call GET p (PDict [(''name'', PStr ''Library''), (''organization_id'', org)]) None)
       (\<lambda>response.
     pure_w (bind_r (json_results response) single_id)))"

text \<open>
  \<open>org_create\<close> is \<^verbatim>\<open>Organization().create(auth=auth)\<close> and \<open>super_build\<close> is the inherited
  \<^verbatim>\<open>build\<close> applied to the receiver as the method has left it; both belong to the factory,
  which is not part of this module.
\<close>

definition LifecycleEnvironment_build ::
    "pyval act \<Rightarrow> (lifecycle_env \<Rightarrow> pyval act) \<Rightarrow> (pyval \<Rightarrow> string result) \<Rightarrow> lifecycle_env
      \<Rightarrow> pyval act" where
  "LifecycleEnvironment_build org_create super_build super_path self =
     bind_w (if organization self = PNone then
               bind_w org_create (\<lambda>attrs.
               bind_w (pure_w (py_getitem attrs ''id'')) (\<lambda>i.
               pure_w (Inr (self\<lparr>organization := i\<rparr>))))
             else pure_w (Inr self)) (\<lambda>self1.
     bind_w (if prior self1 = PNone then
               bind_w (LifecycleEnvironment_library_lookup super_path (organization self1)) (\<lambda>i.
               pure_w (Inr (self1\<lparr>prior := i\<rparr>)))
             else pure_w (Inr self1)) (\<lambda>self2.
     super_build self2))"


section \<open>Calls of the helper methods\<close>

text \<open>
  One constructor for each helper method that calls the HTTP client, with the arguments
  of the call; \<open>invoke\<close> runs it on a receiver whose inherited \<^verbatim>\<open>path\<close> is \<open>super_path\<close>.
\<close>

datatype call =
    Add_subsciptions pyval pyval
  | Promote pyval pyval
  | Publish pyval pyval
  | Subscriptions
  | Upload_manifest string pyval pyval
  | Delete_manifest pyval
  | Refresh_manifest pyval
  | Sync_plan pyval pyval
  | List_rhproducts pyval
  | Organization_fetch_rhproduct string
  | Search_permissions pyval pyval pyval
  | List_repositorysets pyval
  | Product_fetch_rhproduct string pyval
  | Fetch_reposet pyval
  | Enable_rhrepo pyval pyval string pyval
  | Disable_rhrepo pyval pyval string pyval
  | Sync pyval
  | Fetch_repoid pyval string

fun invoke :: "(pyval \<Rightarrow> string result) \<Rightarrow> call \<Rightarrow> pyval act" where
  "invoke sp (Add_subsciptions subscription_id quantity) =
     ActivationKey_add_subsciptions sp subscription_id quantity"
| "invoke sp (Promote environment_id synchronous) =
     ContentViewVersion_promote sp environment_id synchronous"
| "invoke sp (Publish self_id synchronous) = ContentView_publish sp self_id synchronous"
| "invoke sp Subscriptions = Organization_subscriptions sp"
| "invoke sp (Upload_manifest path repository_url synchronous) =
     Organization_upload_manifest sp path repository_url synchronous"
| "invoke sp (Delete_manifest synchronous) = Organization_delete_manifest sp synchronous"
| "invoke sp (Refresh_manifest synchronous) = Organization_refresh_manifest sp synchronous"
| "invoke sp (Sync_plan name interval) = Organization_sync_plan sp name interval"
| "invoke sp (List_rhproducts per_page) = Organization_list_rhproducts sp per_page"
| "invoke sp (Organization_fetch_rhproduct name) = Organization_fetch_rhproduct_id sp name"
| "invoke sp (Search_permissions self_name self_resource_type per_page) =
     Permission_search sp self_name self_resource_type per_page"
| "invoke sp (List_repositorysets per_page) = Product_list_repositorysets sp per_page"
| "invoke sp (Product_fetch_rhproduct name org_id) = Product_fetch_rhproduct_id sp name org_id"
| "invoke sp (Fetch_reposet name) = Product_fetch_reposet_id sp name"
| "invoke sp (Enable_rhrepo base_arch release_ver reposet_id synchronous) =
     Product_enable_rhrepo sp base_arch release_ver reposet_id synchronous"
| "invoke sp (Disable_rhrepo base_arch release_ver reposet_id synchronous) =
     Product_disable_rhrepo sp base_arch release_ver reposet_id synchronous"
| "invoke sp (Sync synchronous) = Repository_sync sp synchronous"
| "invoke sp (Fetch_repoid org_id name) = Repository_fetch_repoid sp org_id name"

text \<open>The argument \<^verbatim>\<open>synchronous\<close> of a call of an asynchronous helper.\<close>

fun synchronous_of :: "call \<Rightarrow> pyval option" where
  "synchronous_of (Promote environment_id synchronous) = Some synchronous"
| "synchronous_of (Publish self_id synchronous) = Some synchronous"
| "synchronous_of (Upload_manifest path repository_url synchronous) = Some synchronous"
| "synchronous_of (Delete_manifest synchronous) = Some synchronous"
| "synchronous_of (Refresh_manifest synchronous) = Some synchronous"
| "synchronous_of (Enable_rhrepo base_arch release_ver reposet_id synchronous) = Some synchronous"
| "synchronous_of (Disable_rhrepo base_arch release_ver reposet_id synchronous) = Some synchronous"
| "synchronous_of (Sync synchronous) = Some synchronous"
| "synchronous_of _ = None"

text \<open>The calls that are uniqueness searches.\<close>

fun is_uniqueness_search :: "call \<Rightarrow> bool" where
  "is_uniqueness_search (Organization_fetch_rhproduct name) = True"
| "is_uniqueness_search (Product_fetch_rhproduct name org_id) = True"
| "is_uniqueness_search (Fetch_reposet name) = True"
| "is_uniqueness_search (Fetch_repoid org_id name) = True"
| "is_uniqueness_search _ = False"

text \<open>Whether the file a call opens can be read (only the manifest upload opens one).\<close>

fun file_readable :: "world \<Rightarrow> call \<Rightarrow> bool" where
  "file_readable w (Upload_manifest path repository_url synchronous) = readable w path"
| "file_readable w _ = True"

text \<open>
  A server for examples: it gives the same response to every request, every poll ends
  the same way, and \<open>bug\<close> says whether the Bugzilla bug is open. \<open>entity_path\<close> is the
  inherited \<^verbatim>\<open>path\<close> of an entity with identifier 1 under \<^verbatim>\<open>api/v2/things\<close>.
\<close>

definition server_world :: "response \<Rightarrow> pyval result \<Rightarrow> bool \<Rightarrow> world" where
  "server_world r polled bug =
     \<lparr>answers = (\<lambda>n. Inr r), poll_task = (\<lambda>task_id poll_rate timeout. polled),
      bz_bug_is_open = (\<lambda>n. bug), readable = (\<lambda>path. True), now = ''2014-11-04 12:00:00'',
      escape_search = (\<lambda>s. s), trace = []\<rparr>"

definition entity_path :: "pyval \<Rightarrow> string result" where
  "entity_path which =
     (if which = PStr ''base'' then Inr ''api/v2/things''
      else if which = PStr ''self'' \<or> which = PNone then Inr ''api/v2/things/1''
      else Inl NoSuchPathError)"


text \<open>A response that accepts a task.\<close>

definition accepted_response :: response where
  "accepted_response =
     \<lparr>status_code = 202, shares_object = False, body = Some (PDict [(''id'', PStr ''task-1'')])\<rparr>"

section \<open>Polling a task\<close>

text \<open>What one check-up of a task learns: the task still runs, or it has ended with this
  information about it.\<close>

datatype task_state = Running | Finished pyval

text \<open>
  Modelled from the spec: \<^verbatim>\<open>orm._poll_task\<close>, which \<^verbatim>\<open>ForemanTask.poll\<close> returns and which
  is not part of this module. By the spec it is a "client-side loop that repeatedly checks
  an asynchronous job's status until completion or timeout"; by the docstring of
  \<^verbatim>\<open>ForemanTask.poll\<close> it checks once every \<^verbatim>\<open>poll_rate\<close> seconds, returns the information
  about the task when the task has ended, raises \<^verbatim>\<open>TaskTimeout\<close> when \<^verbatim>\<open>timeout\<close> seconds
  have passed, and raises \<^verbatim>\<open>HTTPError\<close> when the server answers with an error. Time is
  counted in seconds from the call; \<open>check t\<close> is what a check-up made at second \<open>t\<close>
  learns, and a check-up takes no time. With \<^verbatim>\<open>poll_rate\<close> 0 the loop need not end, so
  the result is an option, \<open>None\<close> for a loop that runs forever.
\<close>

partial_function (option) poll_loop ::
    "(nat \<Rightarrow> task_state result) \<Rightarrow> nat \<Rightarrow> nat \<Rightarrow> nat \<Rightarrow> pyval result option" where
  "poll_loop check poll_rate timeout t =
     (if timeout \<le> t then Some (Inl TaskTimeout)
      else case check t of
             Inl e \<Rightarrow> Some (Inl e)
           | Inr Running \<Rightarrow> poll_loop check poll_rate timeout (t + poll_rate)
           | Inr (Finished info) \<Rightarrow> Some (Inr info))"

text \<open>
  Modelled from the spec: the call \<^verbatim>\<open>orm._poll_task(task_id, poll_rate, timeout, auth)\<close>,
  which is the whole body of \<^verbatim>\<open>ForemanTask.poll\<close>; \<open>check\<close> is what the check-ups of the
  task with that id learn. The loop starts at second 0.
\<close>

definition orm_poll_task :: "(nat \<Rightarrow> task_state result) \<Rightarrow> nat \<Rightarrow> nat \<Rightarrow> pyval result option" where
  "orm_poll_task check poll_rate timeout = poll_loop check poll_rate timeout 0"


section \<open>The \<^verbatim>\<open>Meta\<close> classes\<close>




section \<open>\<^verbatim>\<open>OperatingSystemParameter.read\<close>\<close>

text \<open>
  Objects live in a store: \<open>objects\<close> maps the address of an
  \<^verbatim>\<open>OperatingSystemParameter\<close> to its attributes (\<^verbatim>\<open>os_id\<close>, and the fields \<^verbatim>\<open>id\<close>, \<^verbatim>\<open>name\<close>
  and \<^verbatim>\<open>value\<close>), \<open>next_address\<close> is the address the next new object gets, and
  \<open>Meta_api_path\<close> is the class attribute \<^verbatim>\<open>Meta.api_path\<close>, one for all instances.
\<close>

record os_parameter =
  os_id :: pyval
  entity_id :: pyval
  param_name :: pyval
  param_value :: pyval

record store =
  objects :: "nat \<rightharpoonup> os_parameter"
  next_address :: nat
  Meta_api_path :: string

text \<open>
  \<^verbatim>\<open>OperatingSystemParameter(os_id)\<close>: a new object, \<^verbatim>\<open>self.os_id = os_id\<close>, then
  \<^verbatim>\<open>self.Meta.api_path = '{0}/parameters'.format(OperatingSystem(id=os_id).path())\<close>, then
  the inherited constructor with no field given. \<open>os_path\<close> is the \<^verbatim>\<open>path()\<close> of the
  operating system with that id, from the ORM.
\<close>

definition OperatingSystemParameter_init ::
    "(pyval \<Rightarrow> string result) \<Rightarrow> pyval \<Rightarrow> store \<Rightarrow> nat result \<times> store" where
  "OperatingSystemParameter_init os_path os s =
     (let self = next_address s;
          s1 = s\<lparr>objects := (objects s)(self \<mapsto>
                    \<lparr>os_id = os, entity_id = PNone, param_name = PNone, param_value = PNone\<rparr>),
                 next_address := Suc self\<rparr>
      in case os_path os of
           Inl e \<Rightarrow> (Inl e, s1)
         | Inr p \<Rightarrow> (Inr self, s1\<lparr>Meta_api_path := p @ ''/parameters''\<rparr>))"

text \<open>
  Modelled from the spec: \<^verbatim>\<open>orm.EntityReadMixin.read\<close>, the inherited \<^verbatim>\<open>read\<close>, which is not
  part of this module. By the comment in \<^verbatim>\<open>OperatingSystemParameter.read\<close> it fills in the
  attributes of the object passed as \<^verbatim>\<open>entity\<close> and follows the principle of leaving the
  receiver as it is; it returns that object. The attributes come from \<^verbatim>\<open>attrs\<close>, or from
  \<^verbatim>\<open>self.read_json(auth)\<close> when \<^verbatim>\<open>attrs\<close> is \<^verbatim>\<open>None\<close>; \<open>read_json\<close> and \<open>populate\<close> (how
  attributes are set from the JSON) are parameters.
\<close>

definition EntityReadMixin_read ::
    "(store \<Rightarrow> pyval result) \<Rightarrow> (pyval \<Rightarrow> os_parameter \<Rightarrow> os_parameter result)
      \<Rightarrow> nat \<Rightarrow> pyval option \<Rightarrow> store \<Rightarrow> nat result \<times> store" where
  "EntityReadMixin_read read_json populate entity attrs s =
     (case (case attrs of None \<Rightarrow> read_json s | Some a \<Rightarrow> Inr a) of
        Inl e \<Rightarrow> (Inl e, s)
      | Inr a \<Rightarrow>
          (case objects s entity of
             None \<Rightarrow> (Inl AttributeError, s)
           | Some obj \<Rightarrow>
               (case populate a obj of
                  Inl e \<Rightarrow> (Inl e, s)
                | Inr obj' \<Rightarrow> (Inr entity, s\<lparr>objects := (objects s)(entity \<mapsto> obj')\<rparr>))))"

text \<open>
  \<open>self\<close> is the address of the receiver. A receiver is an object of the store; the first
  case, an address with no object, is there only to make the function total.
\<close>

definition OperatingSystemParameter_read ::
    "(pyval \<Rightarrow> string result) \<Rightarrow> (store \<Rightarrow> pyval result)
      \<Rightarrow> (pyval \<Rightarrow> os_parameter \<Rightarrow> os_parameter result)
      \<Rightarrow> nat \<Rightarrow> pyval option \<Rightarrow> store \<Rightarrow> nat result \<times> store" where
  "OperatingSystemParameter_read os_path read_json populate self attrs s =
     (case objects s self of
        None \<Rightarrow> (Inl AttributeError, s)
      | Some this \<Rightarrow>
          (case OperatingSystemParameter_init os_path (os_id this) s of
             (Inl e, s1) \<Rightarrow> (Inl e, s1)
           | (Inr entity, s1) \<Rightarrow> EntityReadMixin_read read_json populate entity attrs s1))"


text \<open>A store for examples: one parameter of operating system 3 at address 0.\<close>

definition example_store :: store where
  "example_store =
     \<lparr>objects = [0 \<mapsto> \<lparr>os_id = PInt 3, entity_id = PInt 12, param_name = PStr ''kernel'',
                          param_value = PStr ''quiet''\<rparr>],
      next_address = 1, Meta_api_path = ''api/v2/operatingsystems/3/parameters''\<rparr>"


section \<open>Theorems\<close>

lemma py_range_1_9: "py_range 1 (NUM_CREATED_BY_DEFAULT + 1) = [1, 2, 3, 4, 5, 6, 7, 8]"
  by (simp add: py_range_def NUM_CREATED_BY_DEFAULT_def upto.simps)

lemma random_choice_member: "xs \<noteq> [] \<Longrightarrow> \<exists>x \<in> set xs. random_choice rnd xs = Inr x"
  by (simp add: random_choice_def)

text \<open>
  C10. Whenever \<^verbatim>\<open>ConfigTemplate._factory_data\<close> fills in \<^verbatim>\<open>template_kind_id\<close> (the
  generated values hold \<^verbatim>\<open>snippet\<close> equal to \<^verbatim>\<open>False\<close> and no \<^verbatim>\<open>template_kind_id\<close>), it
  returns, and the value stored is an integer from 1 to
  \<^verbatim>\<open>TemplateKind.Meta.NUM_CREATED_BY_DEFAULT\<close> = 8. In every other case the call returns
  the values as they were.
\<close>

theorem template_kind_id_in_range:
  "(vals ''snippet'' = Some (PBool False) \<and> vals ''template_kind_id'' = None \<longrightarrow>
      (\<exists>k. ConfigTemplate_factory_data vals rnd = Inr (vals(''template_kind_id'' \<mapsto> PInt k))
            \<and> 1 \<le> k \<and> k \<le> NUM_CREATED_BY_DEFAULT \<and> NUM_CREATED_BY_DEFAULT = 8))
   \<and> (\<not> (vals ''snippet'' = Some (PBool False) \<and> vals ''template_kind_id'' = None) \<longrightarrow>
        ConfigTemplate_factory_data vals rnd = Inr vals)"
proof (intro conjI impI)
  assume fill: "vals ''snippet'' = Some (PBool False) \<and> vals ''template_kind_id'' = None"
  obtain k where k: "k \<in> set [1, 2, 3, 4, 5, 6, 7, 8::int]"
      and ch: "random_choice rnd (py_range 1 (NUM_CREATED_BY_DEFAULT + 1)) = Inr k"
    using random_choice_member [of "py_range 1 (NUM_CREATED_BY_DEFAULT + 1)" rnd]
    by (auto simp: py_range_1_9)
  have "ConfigTemplate_factory_data vals rnd = Inr (vals(''template_kind_id'' \<mapsto> PInt k))"
    using fill ch by (simp add: ConfigTemplate_factory_data_def bind_r_def setdefault_def)
  moreover have "1 \<le> k \<and> k \<le> NUM_CREATED_BY_DEFAULT \<and> NUM_CREATED_BY_DEFAULT = 8"
    using k by (auto simp: NUM_CREATED_BY_DEFAULT_def)
  ultimately show "\<exists>k. ConfigTemplate_factory_data vals rnd = Inr (vals(''template_kind_id'' \<mapsto> PInt k))
      \<and> 1 \<le> k \<and> k \<le> NUM_CREATED_BY_DEFAULT \<and> NUM_CREATED_BY_DEFAULT = 8"
    by blast
next
  assume nofill: "\<not> (vals ''snippet'' = Some (PBool False) \<and> vals ''template_kind_id'' = None)"
  show "ConfigTemplate_factory_data vals rnd = Inr vals"
  proof (cases "vals ''snippet'' = Some (PBool False)")
    case True
    with nofill obtain v where v: "vals ''template_kind_id'' = Some v" by auto
    obtain k where "random_choice rnd (py_range 1 (NUM_CREATED_BY_DEFAULT + 1)) = Inr k"
      using random_choice_member [of "py_range 1 (NUM_CREATED_BY_DEFAULT + 1)" rnd]
      by (auto simp: py_range_1_9)
    with True v show ?thesis
      by (simp add: ConfigTemplate_factory_data_def bind_r_def setdefault_def)
  next
    case False
    then show ?thesis by (simp add: ConfigTemplate_factory_data_def)
  qed
qed

theorem template_kind_id_in_range_witness:
  "\<exists>k. ConfigTemplate_factory_data [''snippet'' \<mapsto> PBool False] 11
          = Inr ([''snippet'' \<mapsto> PBool False, ''template_kind_id'' \<mapsto> PInt k])
        \<and> 1 \<le> k \<and> k \<le> NUM_CREATED_BY_DEFAULT \<and> NUM_CREATED_BY_DEFAULT = 8"
  using template_kind_id_in_range [of "[''snippet'' \<mapsto> PBool False]" 11] by simp

text \<open>
  C8. For a \<^verbatim>\<open>System\<close> whose \<^verbatim>\<open>uuid\<close> is set, \<^verbatim>\<open>path\<close> with \<^verbatim>\<open>which\<close> equal to \<^verbatim>\<open>None\<close> or
  \<^verbatim>\<open>'self'\<close> returns the base path of systems followed by \<^verbatim>\<open>/\<close> and the uuid; for any other
  \<^verbatim>\<open>which\<close>, or when \<^verbatim>\<open>uuid\<close> is \<^verbatim>\<open>None\<close>, the result is that of the default implementation.
\<close>

theorem System_path_uuid:
  "(super_path (PStr ''base'') = Inr base \<and> (which = PNone \<or> which = PStr ''self'') \<longrightarrow>
      System_path super_path (Some u) which = Inr (base @ ''/'' @ u))
   \<and> (which \<noteq> PNone \<and> which \<noteq> PStr ''self'' \<longrightarrow>
        System_path super_path (Some u) which = super_path which)
   \<and> System_path super_path None which = super_path which"
  by (simp add: System_path_def bind_r_def)

theorem System_path_uuid_witness:
  "System_path (\<lambda>w. if w = PStr ''base'' then Inr ''katello/api/v2/systems'' else Inl NoSuchPathError)
      (Some ''abc-1'') PNone = Inr ''katello/api/v2/systems/abc-1''
   \<and> System_path (\<lambda>w. if w = PStr ''base'' then Inr ''katello/api/v2/systems'' else Inl NoSuchPathError)
      (Some ''abc-1'') (PStr ''base'') = Inr ''katello/api/v2/systems''"
  using System_path_uuid [of "\<lambda>w. if w = PStr ''base'' then Inr ''katello/api/v2/systems'' else Inl NoSuchPathError"
      "''katello/api/v2/systems''" PNone "''abc-1''"]
    System_path_uuid [of "\<lambda>w. if w = PStr ''base'' then Inr ''katello/api/v2/systems'' else Inl NoSuchPathError"
      "''katello/api/v2/systems''" "PStr ''base''" "''abc-1''"]
  by simp


lemmas path_defs = ActivationKey_path_def ContentViewVersion_path_def ContentView_path_def
  Organization_path_def Product_path_def Repository_path_def

lemmas helper_defs = ActivationKey_add_subsciptions_def ContentViewVersion_promote_def
  ContentView_publish_def Organization_subscriptions_def Organization_upload_manifest_def
  Organization_delete_manifest_def Organization_refresh_manifest_def Organization_sync_plan_def
  Organization_list_rhproducts_def Organization_fetch_rhproduct_id_def Permission_search_def
  Product_list_repositorysets_def Product_fetch_rhproduct_id_def Product_fetch_reposet_id_def
  Product_enable_rhrepo_def Product_disable_rhrepo_def Repository_sync_def
  Repository_fetch_repoid_def

lemmas monad_defs = bind_w_def pure_w_def bind_r_def client_call_def open_rb_def

lemma invoke_asynchronous:
  assumes "synchronous_of c = Some s" "sp (PStr ''self'') = Inr p" "file_readable w c"
    "answers w (requests_made (trace w)) = Inr r"
  shows "\<exists>req. is_request req \<and>
     invoke sp c w = task_id_or_none s r (w\<lparr>trace := trace w @ [req]\<rparr>)"
  using assms
  apply (cases c; simp add: helper_defs path_defs monad_defs; (intro conjI impI)?)
          apply (rule exI, rule conjI [rotated], rule refl, simp)+
  done

lemma tail_accepted:
  assumes "status_code r = 202" "body r = Some j" "py_getitem j ''id'' = Inr task_id"
  shows "task_id_or_none s r w =
     (if s = PBool True then
        (case poll_task w task_id 5 120 of Inl e \<Rightarrow> Inl e | Inr info \<Rightarrow> Inr task_id,
         w\<lparr>trace := trace w @ [Poll task_id 5 120]\<rparr>)
      else (Inr task_id, w))"
  using assms
  by (simp add: task_id_or_none_def monad_defs raise_for_status_def status_is_def ACCEPTED_def
      response_json_def ForemanTask_poll_def split: sum.splits)

lemma tail_other:
  assumes "status_code r \<noteq> 202" "\<not> (400 \<le> status_code r \<and> status_code r < 600)"
  shows "task_id_or_none s r w = (Inr PNone, w)"
  using assms
  by (simp add: task_id_or_none_def monad_defs raise_for_status_def status_is_def ACCEPTED_def)

lemma tail_error:
  assumes "400 \<le> status_code r" "status_code r < 600"
  shows "task_id_or_none s r w = (Inl (HTTPError (status_code r)), w)"
  using assms
  by (simp add: task_id_or_none_def monad_defs raise_for_status_def)

text \<open>
  C1, as amended. For a call of any of the eight asynchronous helpers that reaches the
  server: if the response has status 202, its JSON body has a field \<^verbatim>\<open>id\<close>, and either
  \<^verbatim>\<open>synchronous\<close> is not \<^verbatim>\<open>True\<close> or polling the task ends without an exception, the method
  returns that \<^verbatim>\<open>id\<close>; if the response has any other status that is not 4xx or 5xx, the
  method returns \<^verbatim>\<open>None\<close>.
\<close>

theorem accepted_returns_task_id:
  assumes "synchronous_of c = Some s" "sp (PStr ''self'') = Inr p" "file_readable w c"
    "answers w (requests_made (trace w)) = Inr r"
  shows "(status_code r = 202 \<and> body r = Some j \<and> py_getitem j ''id'' = Inr task_id
            \<and> (s = PBool True \<longrightarrow> (\<exists>info. poll_task w task_id 5 120 = Inr info))
          \<longrightarrow> fst (invoke sp c w) = Inr task_id)
       \<and> (status_code r \<noteq> 202 \<and> \<not> (400 \<le> status_code r \<and> status_code r < 600)
          \<longrightarrow> fst (invoke sp c w) = Inr PNone)"
proof -
  obtain req where run: "invoke sp c w = task_id_or_none s r (w\<lparr>trace := trace w @ [req]\<rparr>)"
    using invoke_asynchronous [of c s sp p w r] assms by blast
  show ?thesis
  proof (intro conjI impI)
    assume a: "status_code r = 202 \<and> body r = Some j \<and> py_getitem j ''id'' = Inr task_id
      \<and> (s = PBool True \<longrightarrow> (\<exists>info. poll_task w task_id 5 120 = Inr info))"
    then show "fst (invoke sp c w) = Inr task_id"
      by (auto simp: run tail_accepted)
  next
    assume "status_code r \<noteq> 202 \<and> \<not> (400 \<le> status_code r \<and> status_code r < 600)"
    then show "fst (invoke sp c w) = Inr PNone"
      by (simp add: run tail_other)
  qed
qed

text \<open>
  C3. For a call of any of the eight asynchronous helpers that receives a response with
  status 202 and a task \<^verbatim>\<open>id\<close>: with \<^verbatim>\<open>synchronous\<close> equal to \<^verbatim>\<open>True\<close> the method makes its
  request, then polls that task (\<^verbatim>\<open>ForemanTask(id=task_id).poll()\<close>, rate 5, timeout 120),
  and returns the task id only when the poll has ended without an exception; with
  \<^verbatim>\<open>synchronous\<close> equal to \<^verbatim>\<open>False\<close> it makes its request and returns the task id with no
  poll.
\<close>

theorem synchronous_polls_before_return:
  assumes "synchronous_of c = Some s" "sp (PStr ''self'') = Inr p" "file_readable w c"
    "answers w (requests_made (trace w)) = Inr r"
    "status_code r = 202" "body r = Some j" "py_getitem j ''id'' = Inr task_id"
  shows "(s = PBool True \<longrightarrow>
           (\<exists>req. is_request req \<and>
              invoke sp c w =
                (case poll_task w task_id 5 120 of Inl e \<Rightarrow> Inl e | Inr info \<Rightarrow> Inr task_id,
                 w\<lparr>trace := trace w @ [req, Poll task_id 5 120]\<rparr>)))
       \<and> (s = PBool False \<longrightarrow>
           (\<exists>req. is_request req \<and>
              invoke sp c w = (Inr task_id, w\<lparr>trace := trace w @ [req]\<rparr>)))"
proof -
  obtain req where req: "is_request req"
    and run: "invoke sp c w = task_id_or_none s r (w\<lparr>trace := trace w @ [req]\<rparr>)"
    using invoke_asynchronous [of c s sp p w r] assms(1-4) by blast
  have tail: "task_id_or_none s r (w\<lparr>trace := trace w @ [req]\<rparr>) =
     (if s = PBool True then
        (case poll_task w task_id 5 120 of Inl e \<Rightarrow> Inl e | Inr info \<Rightarrow> Inr task_id,
         w\<lparr>trace := trace w @ [req, Poll task_id 5 120]\<rparr>)
      else (Inr task_id, w\<lparr>trace := trace w @ [req]\<rparr>))"
    using tail_accepted [OF assms(5-7), of s "w\<lparr>trace := trace w @ [req]\<rparr>"] by simp
  show ?thesis
  proof (intro conjI impI)
    assume "s = PBool True"
    with req run tail show "\<exists>req. is_request req \<and>
        invoke sp c w =
          (case poll_task w task_id 5 120 of Inl e \<Rightarrow> Inl e | Inr info \<Rightarrow> Inr task_id,
           w\<lparr>trace := trace w @ [req, Poll task_id 5 120]\<rparr>)"
      by (intro exI [of _ req]) simp
  next
    assume "s = PBool False"
    with req run tail show "\<exists>req. is_request req \<and>
        invoke sp c w = (Inr task_id, w\<lparr>trace := trace w @ [req]\<rparr>)"
      by (intro exI [of _ req]) simp
  qed
qed

text \<open>
  C5. For a call of any helper method that issues an HTTP request: if the response has
  a 4xx or 5xx status, the method raises the \<^verbatim>\<open>HTTPError\<close> of \<^verbatim>\<open>raise_for_status\<close> and
  returns no value.
\<close>

theorem http_error_propagates:
  assumes "sp (PStr ''self'') = Inr p" "sp (PStr ''base'') = Inr pb" "sp PNone = Inr pn"
    "file_readable w c" "answers w (requests_made (trace w)) = Inr r"
    "400 \<le> status_code r" "status_code r < 600"
  shows "fst (invoke sp c w) = Inl (HTTPError (status_code r))"
  using assms
  by (cases c; simp add: helper_defs path_defs monad_defs task_id_or_none_def raise_for_status_def)


lemmas example_defs = server_world_def entity_path_def accepted_response_def requests_made_def

text \<open>
  The claim as stated fails when polling raises: \<^verbatim>\<open>publish\<close> with the default
  \<^verbatim>\<open>synchronous=True\<close>, a response with status 202 and an \<^verbatim>\<open>id\<close>, and a poll that times
  out raises \<^verbatim>\<open>TaskTimeout\<close> and returns nothing.
\<close>

theorem accepted_returns_task_id_counterexample:
  "status_code accepted_response = 202
   \<and> py_getitem (PDict [(''id'', PStr ''task-1'')]) ''id'' = Inr (PStr ''task-1'')
   \<and> fst (ContentView_publish entity_path (PInt 1) (PBool True)
            (server_world accepted_response (Inl TaskTimeout) False)) = Inl TaskTimeout"
  by (simp add: example_defs helper_defs path_defs monad_defs task_id_or_none_def
      raise_for_status_def status_is_def ACCEPTED_def response_json_def ForemanTask_poll_def)

theorem accepted_returns_task_id_witness:
  "fst (invoke entity_path (Publish (PInt 1) (PBool True))
          (server_world accepted_response (Inr (PDict [])) False)) = Inr (PStr ''task-1'')
   \<and> fst (invoke entity_path (Sync (PBool False))
          (server_world \<lparr>status_code = 200, shares_object = False, body = None\<rparr>
             (Inl TaskTimeout) False)) = Inr PNone"
  using accepted_returns_task_id [of "Publish (PInt 1) (PBool True)" "PBool True" entity_path
      "''api/v2/things/1''" "server_world accepted_response (Inr (PDict [])) False"
      accepted_response "PDict [(''id'', PStr ''task-1'')]" "PStr ''task-1''"]
    accepted_returns_task_id [of "Sync (PBool False)" "PBool False" entity_path
      "''api/v2/things/1''"
      "server_world \<lparr>status_code = 200, shares_object = False, body = None\<rparr> (Inl TaskTimeout) False"
      "\<lparr>status_code = 200, shares_object = False, body = None\<rparr>"]
  by (simp add: example_defs)

theorem synchronous_polls_before_return_witness:
  "(\<exists>req. is_request req \<and>
      invoke entity_path (Publish (PInt 1) (PBool True))
        (server_world accepted_response (Inr (PDict [])) False) =
      (Inr (PStr ''task-1''),
       (server_world accepted_response (Inr (PDict [])) False)
         \<lparr>trace := [req, Poll (PStr ''task-1'') 5 120]\<rparr>))
   \<and> (\<exists>req. is_request req \<and>
      invoke entity_path (Publish (PInt 1) (PBool False))
        (server_world accepted_response (Inr (PDict [])) False) =
      (Inr (PStr ''task-1''),
       (server_world accepted_response (Inr (PDict [])) False)\<lparr>trace := [req]\<rparr>))"
  using synchronous_polls_before_return [of "Publish (PInt 1) (PBool True)" "PBool True" entity_path
      "''api/v2/things/1''" "server_world accepted_response (Inr (PDict [])) False"
      accepted_response "PDict [(''id'', PStr ''task-1'')]" "PStr ''task-1''"]
    synchronous_polls_before_return [of "Publish (PInt 1) (PBool False)" "PBool False" entity_path
      "''api/v2/things/1''" "server_world accepted_response (Inr (PDict [])) False"
      accepted_response "PDict [(''id'', PStr ''task-1'')]" "PStr ''task-1''"]
  by (simp add: example_defs)

theorem http_error_propagates_witness:
  "fst (invoke entity_path (Add_subsciptions (PInt 4) (PInt 2))
          (server_world \<lparr>status_code = 404, shares_object = False, body = None\<rparr>
             (Inl TaskTimeout) False)) = Inl (HTTPError 404)"
  using http_error_propagates [of entity_path "''api/v2/things/1''" "''api/v2/things''"
      "''api/v2/things/1''"
      "server_world \<lparr>status_code = 404, shares_object = False, body = None\<rparr> (Inl TaskTimeout) False"
      "Add_subsciptions (PInt 4) (PInt 2)"
      "\<lparr>status_code = 404, shares_object = False, body = None\<rparr>"]
  by (simp add: example_defs)


lemma single_id_list:
  "single_id (PList rs) =
     (if length rs \<noteq> 1 then Inl (APIResponseError (length rs)) else py_getitem (hd rs) ''id'')"
  by (cases rs) (simp_all add: single_id_def bind_r_def)

lemma py_getitem_not_APIResponseError: "py_getitem v k \<noteq> Inl (APIResponseError n)"
  by (cases v) (simp_all split: option.splits)

text \<open>
  C2. For every uniqueness search (\<^verbatim>\<open>Organization.fetch_rhproduct_id\<close>,
  \<^verbatim>\<open>Product.fetch_rhproduct_id\<close>, \<^verbatim>\<open>Product.fetch_reposet_id\<close>, \<^verbatim>\<open>Repository.fetch_repoid\<close>
  and the "Library" lookup of \<^verbatim>\<open>LifecycleEnvironment.build\<close>) whose search has returned a
  list of results: \<^verbatim>\<open>APIResponseError\<close> is raised exactly when the number of results is
  not one, and otherwise the result is the \<^verbatim>\<open>id\<close> of the single result (the lookup of
  \<^verbatim>\<open>results[0]['id']\<close>), which \<^verbatim>\<open>build\<close> stores in \<^verbatim>\<open>prior\<close> before it goes on. The four
  \<^verbatim>\<open>fetch\<close> methods call \<^verbatim>\<open>raise_for_status\<close> first, so for them the status is taken not
  to be 4xx or 5xx; the lookup in \<^verbatim>\<open>build\<close> does not look at the status.
\<close>

theorem uniqueness_search:
  assumes "is_uniqueness_search c"
    "sp (PStr ''self'') = Inr p" "sp (PStr ''base'') = Inr pb" "sp PNone = Inr pn"
    "answers w (requests_made (trace w)) = Inr r"
    "body r = Some j" "py_getitem j ''results'' = Inr (PList rs)"
  shows "(\<not> (400 \<le> status_code r \<and> status_code r < 600) \<longrightarrow>
            (length rs \<noteq> 1 \<longrightarrow> fst (invoke sp c w) = Inl (APIResponseError (length rs)))
          \<and> (length rs = 1 \<longrightarrow> fst (invoke sp c w) = py_getitem (hd rs) ''id''
                \<and> (\<forall>n. fst (invoke sp c w) \<noteq> Inl (APIResponseError n))))
       \<and> (length rs \<noteq> 1 \<longrightarrow>
            fst (LifecycleEnvironment_library_lookup sp org w) = Inl (APIResponseError (length rs)))
       \<and> (length rs = 1 \<longrightarrow>
            fst (LifecycleEnvironment_library_lookup sp org w) = py_getitem (hd rs) ''id''
            \<and> (\<forall>n. fst (LifecycleEnvironment_library_lookup sp org w) \<noteq> Inl (APIResponseError n)))
       \<and> (organization self \<noteq> PNone \<and> prior self = PNone \<longrightarrow>
            (length rs \<noteq> 1 \<longrightarrow>
               fst (LifecycleEnvironment_build org_create super_build sp self w)
                 = Inl (APIResponseError (length rs)))
          \<and> (length rs = 1 \<and> py_getitem (hd rs) ''id'' = Inr i \<longrightarrow>
               LifecycleEnvironment_build org_create super_build sp self w
                 = super_build (self\<lparr>prior := i\<rparr>)
                     (snd (LifecycleEnvironment_library_lookup sp (organization self) w))))"
proof -
  have res: "json_results r = Inr (PList rs)"
    using assms(6,7) by (simp add: json_results_def response_json_def bind_r_def)
  have lookup: "fst (LifecycleEnvironment_library_lookup sp org w) = single_id (PList rs)" for org
    using assms(4,5) res
    by (simp add: LifecycleEnvironment_library_lookup_def monad_defs)
  have run: "fst (invoke sp c w) = single_id (PList rs)"
    if "\<not> (400 \<le> status_code r \<and> status_code r < 600)"
    using assms(1-5) res that
    by (cases c; auto simp: helper_defs path_defs monad_defs raise_for_status_def)
  have build: "LifecycleEnvironment_build org_create super_build sp self w =
      (case LifecycleEnvironment_library_lookup sp (organization self) w of
         (Inl e, w') \<Rightarrow> (Inl e, w')
       | (Inr i, w') \<Rightarrow> super_build (self\<lparr>prior := i\<rparr>) w')"
    if "organization self \<noteq> PNone \<and> prior self = PNone"
    using that
    by (simp add: LifecycleEnvironment_build_def bind_w_def pure_w_def split: prod.splits sum.splits)
  have invoke_part: "\<not> (400 \<le> status_code r \<and> status_code r < 600) \<longrightarrow>
            (length rs \<noteq> 1 \<longrightarrow> fst (invoke sp c w) = Inl (APIResponseError (length rs)))
          \<and> (length rs = 1 \<longrightarrow> fst (invoke sp c w) = py_getitem (hd rs) ''id''
                \<and> (\<forall>n. fst (invoke sp c w) \<noteq> Inl (APIResponseError n)))"
    using run by (auto simp: single_id_list py_getitem_not_APIResponseError)
  have lookup_part: "(length rs \<noteq> 1 \<longrightarrow>
            fst (LifecycleEnvironment_library_lookup sp org w) = Inl (APIResponseError (length rs)))
       \<and> (length rs = 1 \<longrightarrow>
            fst (LifecycleEnvironment_library_lookup sp org w) = py_getitem (hd rs) ''id''
            \<and> (\<forall>n. fst (LifecycleEnvironment_library_lookup sp org w) \<noteq> Inl (APIResponseError n)))"
    for org
    using lookup [of org] by (auto simp: single_id_list py_getitem_not_APIResponseError)
  have build_part: "organization self \<noteq> PNone \<and> prior self = PNone \<longrightarrow>
            (length rs \<noteq> 1 \<longrightarrow>
               fst (LifecycleEnvironment_build org_create super_build sp self w)
                 = Inl (APIResponseError (length rs)))
          \<and> (length rs = 1 \<and> py_getitem (hd rs) ''id'' = Inr i \<longrightarrow>
               LifecycleEnvironment_build org_create super_build sp self w
                 = super_build (self\<lparr>prior := i\<rparr>)
                     (snd (LifecycleEnvironment_library_lookup sp (organization self) w)))"
    using lookup_part [of "organization self"]
    by (auto simp: build split: prod.splits sum.splits)
  show ?thesis
    using invoke_part lookup_part [of org] build_part by blast
qed








theorem uniqueness_search_witness:
  "fst (invoke entity_path (Fetch_repoid (PInt 1) ''rhel'')
      (server_world \<lparr>status_code = 200, shares_object = False,
          body = Some (PDict [(''results'', PList [PDict [(''id'', PInt 7)]])])\<rparr>
        (Inl TaskTimeout) False)) = Inr (PInt 7)
   \<and> fst (invoke entity_path (Fetch_repoid (PInt 1) ''rhel'')
      (server_world \<lparr>status_code = 200, shares_object = False,
          body = Some (PDict [(''results'', PList [])])\<rparr>
        (Inl TaskTimeout) False)) = Inl (APIResponseError 0)"
  using uniqueness_search [of "Fetch_repoid (PInt 1) ''rhel''" entity_path "''api/v2/things/1''"
      "''api/v2/things''" "''api/v2/things/1''"
      "server_world \<lparr>status_code = 200, shares_object = False,
          body = Some (PDict [(''results'', PList [PDict [(''id'', PInt 7)]])])\<rparr>
        (Inl TaskTimeout) False"
      "\<lparr>status_code = 200, shares_object = False,
          body = Some (PDict [(''results'', PList [PDict [(''id'', PInt 7)]])])\<rparr>"
      "PDict [(''results'', PList [PDict [(''id'', PInt 7)]])]" "[PDict [(''id'', PInt 7)]]"]
    uniqueness_search [of "Fetch_repoid (PInt 1) ''rhel''" entity_path "''api/v2/things/1''"
      "''api/v2/things''" "''api/v2/things/1''"
      "server_world \<lparr>status_code = 200, shares_object = False,
          body = Some (PDict [(''results'', PList [])])\<rparr>
        (Inl TaskTimeout) False"
      "\<lparr>status_code = 200, shares_object = False,
          body = Some (PDict [(''results'', PList [])])\<rparr>"
      "PDict [(''results'', PList [])]" "[]"]
  by (simp add: example_defs)


lemma poll_loop_finishes:
  "t + k * r < T \<Longrightarrow> (\<forall>i<k. check (t + i * r) = Inr Running) \<Longrightarrow>
   check (t + k * r) = Inr (Finished info) \<Longrightarrow> poll_loop check r T t = Some (Inr info)"
proof (induction k arbitrary: t)
  case 0
  then show ?case by (subst poll_loop.simps) simp
next
  case (Suc k)
  have here: "check t = Inr Running" using Suc.prems(2) by (metis add.right_neutral mult_zero_left zero_less_Suc)
  have lt: "t < T" using Suc.prems(1) by simp
  have "poll_loop check r T (t + r) = Some (Inr info)"
  proof (rule Suc.IH)
    show "t + r + k * r < T" using Suc.prems(1) by (simp add: algebra_simps)
    show "\<forall>i<k. check (t + r + i * r) = Inr Running"
    proof (intro allI impI)
      fix i assume "i < k"
      then have "Suc i < Suc k" by simp
      then have "check (t + Suc i * r) = Inr Running" using Suc.prems(2) by blast
      then show "check (t + r + i * r) = Inr Running" by (simp add: algebra_simps)
    qed
    show "check (t + r + k * r) = Inr (Finished info)"
      using Suc.prems(3) by (simp add: algebra_simps)
  qed
  with here lt show ?case by (subst poll_loop.simps) simp
qed

lemma poll_loop_ends:
  "0 < r \<Longrightarrow> \<exists>res. poll_loop check r T t = Some res"
proof (induction "T - t" arbitrary: t rule: less_induct)
  case less
  show ?case
  proof (cases "T \<le> t")
    case True
    then show ?thesis by (subst poll_loop.simps) simp
  next
    case False
    then have "T - (t + r) < T - t" using less.prems by simp
    then obtain res where "poll_loop check r T (t + r) = Some res"
      using less.hyps less.prems by blast
    then show ?thesis
      using False by (subst poll_loop.simps) (simp split: sum.splits task_state.splits)
  qed
qed

lemma poll_loop_times_out:
  "0 < r \<Longrightarrow> (\<forall>i. t + i * r < T \<longrightarrow> check (t + i * r) = Inr Running) \<Longrightarrow>
   poll_loop check r T t = Some (Inl TaskTimeout)"
proof (induction "T - t" arbitrary: t rule: less_induct)
  case less
  show ?case
  proof (cases "T \<le> t")
    case True
    then show ?thesis by (subst poll_loop.simps) simp
  next
    case False
    then have here: "check t = Inr Running" using less.prems(2) [rule_format, of 0] by simp
    have dec: "T - (t + r) < T - t" using False less.prems(1) by simp
    have "\<forall>i. t + r + i * r < T \<longrightarrow> check (t + r + i * r) = Inr Running"
    proof (intro allI impI)
      fix i assume "t + r + i * r < T"
      then have "t + Suc i * r < T" by (simp add: algebra_simps)
      then have "check (t + Suc i * r) = Inr Running" using less.prems(2) by blast
      then show "check (t + r + i * r) = Inr Running" by (simp add: algebra_simps)
    qed
    then have "poll_loop check r T (t + r) = Some (Inl TaskTimeout)"
      using less.hyps [OF dec less.prems(1)] by blast
    with here False show ?thesis by (subst poll_loop.simps) simp
  qed
qed

text \<open>
  C6. With a positive \<^verbatim>\<open>poll_rate\<close>, polling always ends. It checks the task at the
  seconds 0, \<^verbatim>\<open>poll_rate\<close>, 2 \<^verbatim>\<open>poll_rate\<close>, ...: when the first check-up that does not find
  the task running comes before \<^verbatim>\<open>timeout\<close> seconds have passed and finds the task ended,
  the information about the task is returned; when every check-up before \<^verbatim>\<open>timeout\<close>
  finds the task running, \<^verbatim>\<open>TaskTimeout\<close> is raised.
\<close>

theorem poll_returns_or_times_out:
  assumes "0 < poll_rate"
  shows "(\<exists>res. orm_poll_task check poll_rate timeout = Some res)
    \<and> (\<forall>k info. k * poll_rate < timeout \<and> (\<forall>i<k. check (i * poll_rate) = Inr Running)
            \<and> check (k * poll_rate) = Inr (Finished info)
          \<longrightarrow> orm_poll_task check poll_rate timeout = Some (Inr info))
    \<and> ((\<forall>i. i * poll_rate < timeout \<longrightarrow> check (i * poll_rate) = Inr Running)
          \<longrightarrow> orm_poll_task check poll_rate timeout = Some (Inl TaskTimeout))"
  using assms poll_loop_ends [of poll_rate check timeout 0]
    poll_loop_finishes [of 0 _ poll_rate timeout check]
    poll_loop_times_out [of poll_rate 0 timeout check]
  by (auto simp: orm_poll_task_def)

theorem poll_returns_or_times_out_witness:
  "orm_poll_task (\<lambda>t. if t < 10 then Inr Running else Inr (Finished (PDict [(''result'', PStr ''success'')])))
      5 120 = Some (Inr (PDict [(''result'', PStr ''success'')]))
   \<and> orm_poll_task (\<lambda>t. Inr Running) 5 120 = Some (Inl TaskTimeout)"
  using poll_returns_or_times_out [of 5
      "\<lambda>t. if t < 10 then Inr Running else Inr (Finished (PDict [(''result'', PStr ''success'')]))" 120,
      THEN conjunct2, THEN conjunct1, rule_format, of 2 "PDict [(''result'', PStr ''success'')]"]
    poll_returns_or_times_out [of 5 "\<lambda>t. Inr Running" 120]
  by simp




text \<open>
  C9. \<^verbatim>\<open>OperatingSystemParameter.read\<close> leaves every attribute of its receiver as it was:
  the object it has populated and returns is a new one, at an address that was free
  before the call.
\<close>

theorem read_leaves_receiver:
  assumes "objects s self = Some this" "self < next_address s"
  shows "objects (snd (OperatingSystemParameter_read os_path read_json populate self attrs s)) self
           = Some this
       \<and> (\<forall>entity. fst (OperatingSystemParameter_read os_path read_json populate self attrs s)
              = Inr entity \<longrightarrow> entity = next_address s \<and> entity \<noteq> self)"
  using assms
  by (auto simp: OperatingSystemParameter_read_def OperatingSystemParameter_init_def
      EntityReadMixin_read_def Let_def split: sum.splits option.splits prod.splits)

text \<open>
  What the call does write outside the new object is the class attribute
  \<^verbatim>\<open>Meta.api_path\<close>, set again by the constructor from the receiver's \<^verbatim>\<open>os_id\<close>.
\<close>

lemma read_resets_class_path:
  assumes "objects s self = Some this" "os_path (os_id this) = Inr p"
  shows "Meta_api_path (snd (OperatingSystemParameter_read os_path read_json populate self attrs s))
           = p @ ''/parameters''"
  using assms
  by (auto simp: OperatingSystemParameter_read_def OperatingSystemParameter_init_def
      EntityReadMixin_read_def Let_def split: sum.splits option.splits prod.splits)

theorem read_leaves_receiver_witness:
  "objects (snd (OperatingSystemParameter_read
       (\<lambda>os. Inr ''api/v2/operatingsystems/3'')
       (\<lambda>s. Inr (PDict [(''name'', PStr ''kernel2'')]))
       (\<lambda>a obj. bind_r (py_getitem a ''name'') (\<lambda>n. Inr (obj\<lparr>param_name := n\<rparr>)))
       0 None example_store)) 0
     = Some \<lparr>os_id = PInt 3, entity_id = PInt 12, param_name = PStr ''kernel'', param_value = PStr ''quiet''\<rparr>
   \<and> fst (OperatingSystemParameter_read
       (\<lambda>os. Inr ''api/v2/operatingsystems/3'')
       (\<lambda>s. Inr (PDict [(''name'', PStr ''kernel2'')]))
       (\<lambda>a obj. bind_r (py_getitem a ''name'') (\<lambda>n. Inr (obj\<lparr>param_name := n\<rparr>)))
       0 None example_store) = Inr 1"
  using read_leaves_receiver [of example_store 0
      "\<lparr>os_id = PInt 3, entity_id = PInt 12, param_name = PStr ''kernel'', param_value = PStr ''quiet''\<rparr>"
      "\<lambda>os. Inr ''api/v2/operatingsystems/3''"
      "\<lambda>s. Inr (PDict [(''name'', PStr ''kernel2'')])"
      "\<lambda>a obj. bind_r (py_getitem a ''name'') (\<lambda>n. Inr (obj\<lparr>param_name := n\<rparr>))" None]
  by (simp add: example_store_def OperatingSystemParameter_read_def OperatingSystemParameter_init_def
      EntityReadMixin_read_def Let_def bind_r_def)

end
